theory Spec2Isabelle
  imports Main
begin

section \<open>Python values the backend relies on\<close>

text \<open>
  Exceptions are values. The three exceptions of the token library are one family:
  \<open>ExpiredSignatureError\<close> and \<open>JWTClaimsError\<close> are subclasses of \<open>JWTError\<close>, so a
  handler \<open>except JWTError\<close> catches all three.
\<close>

datatype py_exn =
    JWTError
  | ExpiredSignatureError
  | JWTClaimsError
  | ValueError
  | TypeError
  | OverflowError
  | MultipleResultsFound
  | IntegrityError
  | ValidationError
  | RecursionError

definition is_JWTError :: "py_exn \<Rightarrow> bool" where
  "is_JWTError e = (e = JWTError \<or> e = ExpiredSignatureError \<or> e = JWTClaimsError)"

text \<open>
  Strings are lists of characters with code points below 256. \<open>int(s)\<close> on a string:
  surrounding whitespace is stripped (tab, line feed, vertical tab, form feed, carriage
  return, space, and the two spaces above 127: next line and no-break space), one sign is
  allowed, then decimal digits follow, where single underscores may stand between two
  digits. Anything else raises \<open>ValueError\<close>, and so does a string with more digits than
  the interpreter's limit for conversions between \<open>int\<close> and \<open>str\<close>, which is 4300 unless
  the process is started with another one.
\<close>

definition MAX_STR_DIGITS :: nat where
  "MAX_STR_DIGITS = 4300"

definition py_isspace :: "char \<Rightarrow> bool" where
  "py_isspace c = (of_char c \<in> set [9, 10, 11, 12, 13, 32, 133, 160 :: nat])"

definition py_strip :: "string \<Rightarrow> string" where
  "py_strip s = rev (dropWhile py_isspace (rev (dropWhile py_isspace s)))"

definition is_digit :: "char \<Rightarrow> bool" where
  "is_digit c = (48 \<le> (of_char c :: nat) \<and> (of_char c :: nat) \<le> 57)"

definition digit_val :: "char \<Rightarrow> nat" where
  "digit_val c = of_char c - 48"

definition digit_char :: "nat \<Rightarrow> char" where
  "digit_char d = char_of (48 + d)"

fun parse_digits :: "nat \<Rightarrow> string \<Rightarrow> nat option" where
  "parse_digits acc [] = Some acc"
| "parse_digits acc (c # cs) =
     (if is_digit c then parse_digits (10 * acc + digit_val c) cs
      else if c = CHR ''_'' then
        (case cs of
           [] \<Rightarrow> None
         | d # ds \<Rightarrow> if is_digit d then parse_digits (10 * acc + digit_val d) ds else None)
      else None)"

definition parse_unsigned :: "string \<Rightarrow> nat option" where
  "parse_unsigned s =
     (case s of
        [] \<Rightarrow> None
      | c # cs \<Rightarrow> if is_digit c then parse_digits (digit_val c) cs else None)"

definition py_int_str :: "string \<Rightarrow> py_exn + int" where
  "py_int_str s =
     (let t = py_strip s;
          neg = (case t of c # _ \<Rightarrow> c = CHR ''-'' | [] \<Rightarrow> False);
          body = (case t of c # r \<Rightarrow> if c = CHR ''-'' \<or> c = CHR ''+'' then r else t | [] \<Rightarrow> t)
      in case parse_unsigned body of
           None \<Rightarrow> Inl ValueError
         | Some n \<Rightarrow>
             if MAX_STR_DIGITS < length (filter is_digit body) then Inl ValueError
             else Inr (if neg then - int n else int n))"

text \<open>
  \<open>str(n)\<close> on an integer: a minus sign for a negative number, then its decimal digits;
  \<open>ValueError\<close> when there are more digits than the limit.
\<close>

fun str_nat :: "nat \<Rightarrow> string" where
  "str_nat n = (if n < 10 then [digit_char n] else str_nat (n div 10) @ [digit_char (n mod 10)])"

declare str_nat.simps [simp del]

definition py_str :: "int \<Rightarrow> py_exn + string" where
  "py_str n =
     (let digits = str_nat (nat \<bar>n\<bar>)
      in if MAX_STR_DIGITS < length digits then Inl ValueError
         else Inr (if n < 0 then CHR ''-'' # digits else digits))"

section \<open>config.py\<close>

text \<open>
  The process environment is a map from names to values; \<open>os.getenv(k, d)\<close> is the value
  of \<open>k\<close> when it is set and \<open>d\<close> otherwise.
\<close>

type_synonym environ = "string \<rightharpoonup> string"

definition getenv :: "environ \<Rightarrow> string \<Rightarrow> string \<Rightarrow> string" where
  "getenv env k d = (case env k of Some v \<Rightarrow> v | None \<Rightarrow> d)"

record settings =
  DATABASE_URL :: string
  SECRET_KEY :: string
  ALGORITHM :: string
  ACCESS_TOKEN_EXPIRE_MINUTES :: int

definition builtin_secret :: string where
  "builtin_secret = ''KPUqFcCE/cmK7jg73LieWXczeHwnHlb4Hde1EcVrbCo=''"

text \<open>
  The body of class \<open>Settings\<close> runs once, when the module is imported. Its only step that
  can raise is \<open>int(...)\<close> on the configured token lifetime.
\<close>

definition Settings :: "environ \<Rightarrow> py_exn + settings" where
  "Settings env =
     (case py_int_str (getenv env ''ACCESS_TOKEN_EXPIRE_MINUTES'' ''30'') of
        Inl e \<Rightarrow> Inl e
      | Inr minutes \<Rightarrow>
          Inr \<lparr> DATABASE_URL = getenv env ''DATABASE_URL'' ''sqlite+aiosqlite:///./todo_app.db'',
                SECRET_KEY = getenv env ''SECRET_KEY'' (getenv env ''AUTH_SECRET'' builtin_secret),
                ALGORITHM = getenv env ''ALGORITHM'' ''HS256'',
                ACCESS_TOKEN_EXPIRE_MINUTES = minutes \<rparr>)"

text \<open>The settings of a process whose environment sets none of the variables.\<close>

definition default_settings :: settings where
  "default_settings =
     \<lparr> DATABASE_URL = ''sqlite+aiosqlite:///./todo_app.db'', SECRET_KEY = builtin_secret,
       ALGORITHM = ''HS256'', ACCESS_TOKEN_EXPIRE_MINUTES = 30 \<rparr>"

section \<open>Time\<close>

text \<open>
  A \<open>datetime\<close> is a number of microseconds since the epoch and a \<open>timedelta\<close> a number
  of microseconds. Both Python types are bounded: a \<open>datetime\<close> lies between year 1 and
  year 9999, a \<open>timedelta\<close> within 999999999 days, and arithmetic that leaves the range
  raises \<open>OverflowError\<close>. Every call of \<open>datetime.utcnow()\<close> is an argument \<open>now\<close>
  of the function that makes it.
\<close>

type_synonym datetime = int
type_synonym timedelta = int

definition datetime_min :: datetime where
  "datetime_min = - 62135596800 * 1000000"

definition datetime_max :: datetime where
  "datetime_max = 253402300799 * 1000000 + 999999"

definition datetime_add :: "datetime \<Rightarrow> timedelta \<Rightarrow> py_exn + datetime" where
  "datetime_add t d =
     (if datetime_min \<le> t + d \<and> t + d \<le> datetime_max then Inr (t + d) else Inl OverflowError)"

definition timedelta_minutes :: "int \<Rightarrow> py_exn + timedelta" where
  "timedelta_minutes m =
     (let d = m * 60 * 1000000 in
      if - 999999999 * 86400 * 1000000 \<le> d \<and> d \<le> (999999999 * 86400 + 86399) * 1000000 + 999999
      then Inr d else Inl OverflowError)"

text \<open>\<open>timegm(t.utctimetuple())\<close>: the whole seconds of \<open>t\<close>; the microseconds are dropped.\<close>

definition timegm_utc :: "datetime \<Rightarrow> int" where
  "timegm_utc t = t div 1000000"

section \<open>JSON values\<close>

text \<open>
  What \<open>json.loads\<close> yields. A finite float is \<open>Finite m e\<close>, the number \<open>m * 2 ^ e\<close>;
  \<open>json.loads\<close> also reads the infinities and NaN. A dict is the list of its items, in
  insertion order; \<open>d.get(k)\<close> is \<open>dict_get\<close> and \<open>d.update({k: v})\<close> is \<open>dict_set\<close>.
\<close>

datatype pyfloat = Finite int int | PosInf | NegInf | NaN

datatype json =
    JNull
  | JBool bool
  | JInt int
  | JFloat pyfloat
  | JStr string
  | JList "json list"
  | JObject "(string \<times> json) list"

type_synonym payload = "(string \<times> json) list"

definition dict_get :: "('k \<times> 'v) list \<Rightarrow> 'k \<Rightarrow> 'v option" where
  "dict_get d k = map_of d k"

fun dict_set :: "'k \<Rightarrow> 'v \<Rightarrow> ('k \<times> 'v) list \<Rightarrow> ('k \<times> 'v) list" where
  "dict_set k v [] = [(k, v)]"
| "dict_set k v (p # ps) = (if fst p = k then (k, v) # ps else p # dict_set k v ps)"

text \<open>
  \<open>int(v)\<close>: a string is parsed, a float is cut towards zero, an infinity raises
  \<open>OverflowError\<close>, NaN raises \<open>ValueError\<close>, and \<open>None\<close>, a list or a dict raise \<open>TypeError\<close>.
\<close>

definition float_trunc :: "int \<Rightarrow> int \<Rightarrow> int" where
  "float_trunc m e =
     (if 0 \<le> e then m * 2 ^ nat e
      else if 0 \<le> m then m div 2 ^ nat (- e)
      else - ((- m) div 2 ^ nat (- e)))"

definition py_int :: "json \<Rightarrow> py_exn + int" where
  "py_int v =
     (case v of
        JStr s \<Rightarrow> py_int_str s
      | JInt n \<Rightarrow> Inr n
      | JBool b \<Rightarrow> Inr (if b then 1 else 0)
      | JFloat f \<Rightarrow>
          (case f of
             Finite m e \<Rightarrow> Inr (float_trunc m e)
           | PosInf \<Rightarrow> Inl OverflowError
           | NegInf \<Rightarrow> Inl OverflowError
           | NaN \<Rightarrow> Inl ValueError)
      | JNull \<Rightarrow> Inl TypeError
      | JList _ \<Rightarrow> Inl TypeError
      | JObject _ \<Rightarrow> Inl TypeError)"

section \<open>The token library (jose.jwt)\<close>

text \<open>
  \<open>jwt.encode\<close> and \<open>jwt.decode\<close> belong to the external library python-jose; its source is
  not part of the repository. The model follows what the library does with its default
  options:
  \<^item> A token string is given by what the library reads in it. \<open>Jws input alg payload sg\<close>
    is a compact JWS whose first two parts, as they stand in the string, are the signing
    input \<open>input\<close>, whose header names the algorithm \<open>alg\<close>, whose payload is the JSON
    object \<open>payload\<close> and whose third part is the byte string \<open>sg\<close>. Two tokens may have
    the same algorithm and payload and different signing inputs: a header may have other
    fields, and one JSON value has many spellings. \<open>Undecodable\<close> is a string
    the library refuses with \<open>JWTError\<close> before it looks at any claim (too few parts, bad
    base64, a header or payload that is not a JSON object, an \<open>alg\<close> that is missing or
    not a string). \<open>TooDeep\<close> is a string on which \<open>json.loads\<close> raises
    \<open>RecursionError\<close>, which is not a \<open>ValueError\<close>, while the library catches
    \<open>ValueError\<close> only: a string whose header nests JSON deeper than the interpreter's
    recursion limit (the header is read before the signature is checked), or whose
    payload does and whose signature has verified.
  \<^item> The HMAC is an argument \<open>hmac\<close> of every function that signs or verifies:
    \<open>hmac alg key input\<close> is the signature of the signing input \<open>input\<close> under \<open>key\<close>, with
    the hash of \<open>alg\<close>. Nothing is assumed about it; two keys may well give the same
    signature, as a short key and the same key followed by NUL bytes do in HMAC.
  \<^item> The spelling of a token is an argument \<open>enc\<close> of every function that issues one:
    \<open>enc alg payload\<close> is the signing input that \<open>jwt.encode\<close> writes for the header of
    \<open>alg\<close> and for \<open>payload\<close>. Nothing is assumed about it either; the token that
    \<open>jwt.encode\<close> returns is one in which the library reads \<open>alg\<close> and \<open>payload\<close> again.
  \<^item> The configured algorithm is taken to be one of the library's HMAC algorithms
    (HS256, the default, HS384 or HS512) and the configured secret a string the library
    uses as the HMAC key as it stands, as the built-in one is: not JSON text and not a
    PEM or SSH public key, for which the library raises or reads another key.
  \<^item> The claims are validated in the library's order: \<open>iat\<close>, \<open>nbf\<close>, \<open>exp\<close>, \<open>aud\<close>, \<open>sub\<close>,
    \<open>jti\<close>, \<open>at_hash\<close>. The handler around \<open>int(...)\<close> of a time claim catches \<open>ValueError\<close>
    only. No audience and no access token are passed to \<open>decode\<close>, so a token with an
    \<open>aud\<close> or an \<open>at_hash\<close> claim is refused. The clock reads of one call are one
    argument \<open>now\<close>.
\<close>

type_synonym hmac_fun = "string \<Rightarrow> string \<Rightarrow> string \<Rightarrow> string"

type_synonym encode_fun = "string \<Rightarrow> payload \<Rightarrow> string"

datatype token = Undecodable string | TooDeep string | Jws string string payload string

definition jwt_encode ::
  "hmac_fun \<Rightarrow> encode_fun \<Rightarrow> payload \<Rightarrow> string \<Rightarrow> string \<Rightarrow> token" where
  "jwt_encode hmac enc claims key algorithm =
     (let signing_input = enc algorithm claims
      in Jws signing_input algorithm claims (hmac algorithm key signing_input))"

definition claim_int :: "json \<Rightarrow> py_exn + int" where
  "claim_int v =
     (case py_int v of
        Inl e \<Rightarrow> Inl (if e = ValueError then JWTClaimsError else e)
      | Inr n \<Rightarrow> Inr n)"

definition validate_iat :: "payload \<Rightarrow> py_exn + unit" where
  "validate_iat claims =
     (case dict_get claims ''iat'' of
        None \<Rightarrow> Inr ()
      | Some v \<Rightarrow> (case claim_int v of Inl e \<Rightarrow> Inl e | Inr iat \<Rightarrow> Inr ()))"

definition validate_nbf :: "payload \<Rightarrow> datetime \<Rightarrow> py_exn + unit" where
  "validate_nbf claims now =
     (case dict_get claims ''nbf'' of
        None \<Rightarrow> Inr ()
      | Some v \<Rightarrow>
          (case claim_int v of
             Inl e \<Rightarrow> Inl e
           | Inr nbf \<Rightarrow> if timegm_utc now < nbf then Inl JWTClaimsError else Inr ()))"

definition validate_exp :: "payload \<Rightarrow> datetime \<Rightarrow> py_exn + unit" where
  "validate_exp claims now =
     (case dict_get claims ''exp'' of
        None \<Rightarrow> Inr ()
      | Some v \<Rightarrow>
          (case claim_int v of
             Inl e \<Rightarrow> Inl e
           | Inr expiry \<Rightarrow> if expiry < timegm_utc now then Inl ExpiredSignatureError else Inr ()))"

definition validate_aud :: "payload \<Rightarrow> py_exn + unit" where
  "validate_aud claims =
     (case dict_get claims ''aud'' of None \<Rightarrow> Inr () | Some v \<Rightarrow> Inl JWTClaimsError)"

definition validate_sub :: "payload \<Rightarrow> py_exn + unit" where
  "validate_sub claims =
     (case dict_get claims ''sub'' of
        None \<Rightarrow> Inr ()
      | Some v \<Rightarrow> (case v of JStr s \<Rightarrow> Inr () | _ \<Rightarrow> Inl JWTClaimsError))"

definition validate_jti :: "payload \<Rightarrow> py_exn + unit" where
  "validate_jti claims =
     (case dict_get claims ''jti'' of
        None \<Rightarrow> Inr ()
      | Some v \<Rightarrow> (case v of JStr s \<Rightarrow> Inr () | _ \<Rightarrow> Inl JWTClaimsError))"

definition validate_at_hash :: "payload \<Rightarrow> py_exn + unit" where
  "validate_at_hash claims =
     (case dict_get claims ''at_hash'' of None \<Rightarrow> Inr () | Some v \<Rightarrow> Inl JWTClaimsError)"

definition and_then :: "py_exn + unit \<Rightarrow> py_exn + 'a \<Rightarrow> py_exn + 'a" where
  "and_then r rest = (case r of Inl e \<Rightarrow> Inl e | Inr u \<Rightarrow> rest)"

definition validate_claims :: "payload \<Rightarrow> datetime \<Rightarrow> py_exn + payload" where
  "validate_claims claims now =
     and_then (validate_iat claims)
    (and_then (validate_nbf claims now)
    (and_then (validate_exp claims now)
    (and_then (validate_aud claims)
    (and_then (validate_sub claims)
    (and_then (validate_jti claims)
    (and_then (validate_at_hash claims)
    (Inr claims)))))))"

text \<open>
  \<open>jwt.decode(token, key, algorithms)\<close> at time \<open>now\<close>: the header's algorithm must be one
  of \<open>algorithms\<close>, the signature must be the HMAC of the signing input under \<open>key\<close>, and
  the claims must pass the validation.
\<close>

definition jwt_decode ::
  "hmac_fun \<Rightarrow> token \<Rightarrow> string \<Rightarrow> string list \<Rightarrow> datetime \<Rightarrow> py_exn + payload" where
  "jwt_decode hmac tok key algorithms now =
     (case tok of
        Undecodable s \<Rightarrow> Inl JWTError
      | TooDeep s \<Rightarrow> Inl RecursionError
      | Jws signing_input alg claims sg \<Rightarrow>
          if alg \<notin> set algorithms then Inl JWTError
          else if sg \<noteq> hmac alg key signing_input then Inl JWTError
          else validate_claims claims now)"

section \<open>The password library (passlib)\<close>

text \<open>
  \<open>pwd_context = CryptContext(schemes=["pbkdf2_sha256"], deprecated="auto")\<close> belongs to
  the external library passlib. A digest string is given by what the library reads in
  it: \<open>Pbkdf2 salt chk\<close> is a well-formed pbkdf2-sha256 digest with its settings (the
  number of rounds and the salt, together \<open>salt\<close>) and its checksum \<open>chk\<close>; \<open>NotPbkdf2\<close>
  is any other string. The key derivation is an argument \<open>kdf\<close>: \<open>kdf salt secret\<close> is
  the checksum of \<open>secret\<close> under the settings \<open>salt\<close>. Nothing is assumed about it; two
  secrets may well give the same checksum, as a short password and the same password
  followed by NUL bytes do in PBKDF2 with HMAC. The settings that \<open>hash\<close> takes (the
  configured rounds and a salt drawn at random) are an argument. \<open>verify\<close> first
  identifies the digest, then checks the size of the secret, then derives the checksum
  under the digest's own settings; the library refuses a secret of more than 4096
  characters, and a digest it cannot identify or parse, by raising a subclass of
  \<open>ValueError\<close>.
\<close>

type_synonym kdf_fun = "string \<Rightarrow> string \<Rightarrow> string"

datatype pw_hash = Pbkdf2 string string | NotPbkdf2 string

definition MAX_PASSWORD_SIZE :: nat where
  "MAX_PASSWORD_SIZE = 4096"

definition pwd_context_hash :: "kdf_fun \<Rightarrow> string \<Rightarrow> string \<Rightarrow> py_exn + pw_hash" where
  "pwd_context_hash kdf salt secret =
     (if MAX_PASSWORD_SIZE < length secret then Inl ValueError
      else Inr (Pbkdf2 salt (kdf salt secret)))"

definition pwd_context_verify :: "kdf_fun \<Rightarrow> string \<Rightarrow> pw_hash \<Rightarrow> py_exn + bool" where
  "pwd_context_verify kdf secret h =
     (case h of
        NotPbkdf2 s \<Rightarrow> Inl ValueError
      | Pbkdf2 salt chk \<Rightarrow>
          if MAX_PASSWORD_SIZE < length secret then Inl ValueError
          else Inr (kdf salt secret = chk))"

text \<open>
  Three functions that stand in for HMAC, for the spelling of a token and for PBKDF2
  where an example has to be evaluated. They are not the real functions, and no theorem
  about the program depends on what they compute: every such theorem holds for all
  \<open>hmac\<close>, all \<open>enc\<close> and all \<open>kdf\<close>.
\<close>

definition example_hmac :: hmac_fun where
  "example_hmac alg key signing_input = alg @ '':'' @ key @ '':'' @ signing_input"

definition example_enc :: encode_fun where
  "example_enc alg claims = alg @ ''.'' @ concat (map fst claims)"

definition example_kdf :: kdf_fun where
  "example_kdf salt secret = salt @ '':'' @ secret"

section \<open>utils.py\<close>

definition update_timestamp :: "datetime \<Rightarrow> datetime" where
  "update_timestamp now = now"

definition validate_user_ownership :: "int \<Rightarrow> int \<Rightarrow> bool" where
  "validate_user_ownership user_id task_user_id = (user_id = task_user_id)"

text \<open>Both password functions hand the library's result, or its exception, on.\<close>

definition verify_password :: "kdf_fun \<Rightarrow> string \<Rightarrow> pw_hash \<Rightarrow> py_exn + bool" where
  "verify_password kdf plain_password hashed = pwd_context_verify kdf plain_password hashed"

definition get_password_hash :: "kdf_fun \<Rightarrow> string \<Rightarrow> string \<Rightarrow> py_exn + pw_hash" where
  "get_password_hash kdf salt password = pwd_context_hash kdf salt password"

text \<open>
  \<open>create_access_token\<close>: \<open>if expires_delta:\<close> is false for \<open>None\<close> and for a zero
  \<open>timedelta\<close>; both take the configured lifetime. \<open>jwt.encode\<close> stores the \<open>datetime\<close>
  under \<open>exp\<close> as \<open>timegm\<close> of it.
\<close>

definition create_access_token ::
  "hmac_fun \<Rightarrow> encode_fun \<Rightarrow> settings \<Rightarrow> datetime \<Rightarrow> payload \<Rightarrow> timedelta option
     \<Rightarrow> py_exn + token" where
  "create_access_token hmac enc cfg now data expires_delta =
     (let expire =
        (case expires_delta of
           Some d \<Rightarrow>
             if d \<noteq> 0 then datetime_add now d
             else (case timedelta_minutes (ACCESS_TOKEN_EXPIRE_MINUTES cfg) of
                     Inl e \<Rightarrow> Inl e | Inr m \<Rightarrow> datetime_add now m)
         | None \<Rightarrow>
             (case timedelta_minutes (ACCESS_TOKEN_EXPIRE_MINUTES cfg) of
                Inl e \<Rightarrow> Inl e | Inr m \<Rightarrow> datetime_add now m))
      in case expire of
           Inl e \<Rightarrow> Inl e
         | Inr t \<Rightarrow>
             Inr (jwt_encode hmac enc (dict_set ''exp'' (JInt (timegm_utc t)) data)
                    (SECRET_KEY cfg) (ALGORITHM cfg)))"

text \<open>
  \<open>verify_token\<close>: the result is \<open>Inr (Some user_id)\<close>, \<open>Inr None\<close> for Python's \<open>None\<close>,
  or \<open>Inl e\<close> for an exception that leaves the function. The \<open>try\<close> body is
  \<open>verify_token_body\<close>; the two handlers turn \<open>JWTError\<close> (with its subclasses),
  \<open>ValueError\<close> and \<open>TypeError\<close> into \<open>None\<close>, and any other exception passes.
\<close>

definition verify_token_body ::
  "hmac_fun \<Rightarrow> settings \<Rightarrow> datetime \<Rightarrow> token \<Rightarrow> py_exn + int option" where
  "verify_token_body hmac cfg now tok =
     (case jwt_decode hmac tok (SECRET_KEY cfg) [ALGORITHM cfg] now of
        Inl e \<Rightarrow> Inl e
      | Inr claims \<Rightarrow>
          (case dict_get claims ''sub'' of
             None \<Rightarrow> Inr None
           | Some user_id_str \<Rightarrow>
               if user_id_str = JNull then Inr None
               else (case py_int user_id_str of Inl e \<Rightarrow> Inl e | Inr n \<Rightarrow> Inr (Some n))))"

definition verify_token ::
  "hmac_fun \<Rightarrow> settings \<Rightarrow> datetime \<Rightarrow> token \<Rightarrow> py_exn + int option" where
  "verify_token hmac cfg now tok =
     (case verify_token_body hmac cfg now tok of
        Inl e \<Rightarrow> if is_JWTError e then Inr None
                 else if e = ValueError \<or> e = TypeError then Inr None
                 else Inl e
      | Inr r \<Rightarrow> Inr r)"


section \<open>dependencies.py\<close>

text \<open>
  A request ends with a value or with a failure: an \<open>HTTPException\<close> (status code, detail,
  headers) or an exception nobody caught.
\<close>

datatype failure = HTTPException nat string "(string \<times> string) list" | Uncaught py_exn

definition get_user_id_from_token ::
  "hmac_fun \<Rightarrow> settings \<Rightarrow> datetime \<Rightarrow> token \<Rightarrow> failure + int" where
  "get_user_id_from_token hmac cfg now tok =
     (case verify_token hmac cfg now tok of
        Inl e \<Rightarrow> Inl (Uncaught e)
      | Inr None \<Rightarrow>
          Inl (HTTPException 401 ''Invalid or expired token'' [(''WWW-Authenticate'', ''Bearer'')])
      | Inr (Some user_id) \<Rightarrow> Inr user_id)"

definition validate_user_id_match :: "int \<Rightarrow> int \<Rightarrow> failure + int" where
  "validate_user_id_match user_id token_user_id =
     (if user_id \<noteq> token_user_id
      then Inl (HTTPException 403 ''User ID does not match authenticated user'' [])
      else Inr user_id)"

text \<open>
  The dependency chain of every task route: the bearer token is resolved first, then the
  path's \<open>user_id\<close> is checked against it.
\<close>

definition path_user_dependency ::
  "hmac_fun \<Rightarrow> settings \<Rightarrow> datetime \<Rightarrow> token \<Rightarrow> int \<Rightarrow> failure + int" where
  "path_user_dependency hmac cfg now tok user_id =
     (case get_user_id_from_token hmac cfg now tok of
        Inl f \<Rightarrow> Inl f
      | Inr token_user_id \<Rightarrow> validate_user_id_match user_id token_user_id)"

section \<open>models and schemas\<close>

text \<open>
  The column \<open>id\<close> of both tables is named \<open>task_id\<close> and \<open>user_pk\<close> here, and the user's
  \<open>created_at\<close> is \<open>user_created_at\<close>. The fields of the request schemas carry the
  prefixes \<open>tc_\<close> (TaskCreate), \<open>tu_\<close> (TaskUpdate), \<open>uc_\<close> (UserCreate) and \<open>ur_\<close> (UserRead).
\<close>

record task =
  title :: string
  description :: "string option"
  completed :: bool
  user_id :: int
  task_id :: int
  created_at :: datetime
  updated_at :: datetime

record user =
  user_pk :: int
  email :: string
  user_created_at :: datetime
  hashed_password :: pw_hash
  is_active :: bool

record task_create =
  tc_title :: string
  tc_description :: "string option"
  tc_completed :: bool

text \<open>
  A field of \<open>TaskUpdate\<close> is unset (\<open>None\<close>), set to null (\<open>Some None\<close>) or set to a
  value; \<open>model_dump(exclude_unset=True)\<close> keeps the fields that are set.
\<close>

record task_update =
  tu_title :: "string option option"
  tu_description :: "string option option"
  tu_completed :: "bool option option"

record user_create =
  uc_email :: string
  uc_password :: string

record user_read =
  ur_id :: int
  ur_email :: string
  ur_created_at :: datetime
  ur_is_active :: bool

record token_response =
  access_token :: token
  token_type :: string

text \<open>\<open>TaskRead.model_validate\<close>: the length bounds of \<open>TaskBase\<close> are checked again.\<close>

definition TaskRead_model_validate :: "task \<Rightarrow> py_exn + task" where
  "TaskRead_model_validate t =
     (if 1 \<le> length (title t) \<and> length (title t) \<le> 200
         \<and> (case description t of None \<Rightarrow> True | Some d \<Rightarrow> length d \<le> 1000)
      then Inr t else Inl ValidationError)"

section \<open>The database\<close>

text \<open>
  The two tables are lists of rows. A new row gets the next primary key. A commit that
  would store null in a column that is not nullable raises \<open>IntegrityError\<close>.
\<close>

record database =
  users :: "user list"
  tasks :: "task list"

definition next_id :: "int list \<Rightarrow> int" where
  "next_id ids = fold max ids 0 + 1"

fun scalar_one_or_none :: "'a list \<Rightarrow> py_exn + 'a option" where
  "scalar_one_or_none [] = Inr None"
| "scalar_one_or_none [x] = Inr (Some x)"
| "scalar_one_or_none (x # y # zs) = Inl MultipleResultsFound"

section \<open>routes/tasks.py\<close>

fun validate_rows :: "task list \<Rightarrow> py_exn + task list" where
  "validate_rows [] = Inr []"
| "validate_rows (t # ts) =
     (case TaskRead_model_validate t of
        Inl e \<Rightarrow> Inl e
      | Inr r \<Rightarrow> (case validate_rows ts of Inl e \<Rightarrow> Inl e | Inr rs \<Rightarrow> Inr (r # rs)))"

definition list_tasks :: "database \<Rightarrow> int \<Rightarrow> failure + task list" where
  "list_tasks db uid =
     (case validate_rows (filter (\<lambda>t. user_id t = uid) (tasks db)) of
        Inl e \<Rightarrow> Inl (HTTPException 500 ''An unexpected error occurred while retrieving tasks'' [])
      | Inr task_reads \<Rightarrow> Inr task_reads)"

text \<open>\<open>GET /{user_id}/tasks\<close>: the dependency runs before the handler.\<close>

definition GET_tasks ::
  "hmac_fun \<Rightarrow> settings \<Rightarrow> datetime \<Rightarrow> database \<Rightarrow> token \<Rightarrow> int \<Rightarrow> failure + task list" where
  "GET_tasks hmac cfg now db tok path_user_id =
     (case path_user_dependency hmac cfg now tok path_user_id of
        Inl f \<Rightarrow> Inl f
      | Inr uid \<Rightarrow> list_tasks db uid)"

text \<open>
  \<open>create_task\<close>: the row takes its three fields from the body and \<open>user_id\<close> from the
  dependency; \<open>created_at\<close> and \<open>updated_at\<close> are two calls of \<open>datetime.utcnow\<close>, one per
  \<open>default_factory\<close>. The result is the response and the database after the request.
\<close>

definition create_task ::
  "database \<Rightarrow> datetime \<Rightarrow> datetime \<Rightarrow> task_create \<Rightarrow> int \<Rightarrow> (failure + task) \<times> database" where
  "create_task db now_created now_updated body uid =
     (let db_task = \<lparr> title = tc_title body, description = tc_description body,
                      completed = tc_completed body, user_id = uid,
                      task_id = next_id (map task_id (tasks db)),
                      created_at = now_created, updated_at = now_updated \<rparr>;
          db' = db\<lparr>tasks := tasks db @ [db_task]\<rparr>
      in (case TaskRead_model_validate db_task of
            Inl e \<Rightarrow> Inl (HTTPException 500 ''An unexpected error occurred while creating the task'' [])
          | Inr r \<Rightarrow> Inr r,
          db'))"


text \<open>
  \<open>partial_update_task\<close>: every field that is set is written with \<open>setattr\<close>, then the
  session commits. Nothing else of the row is written.
\<close>

definition apply_update :: "task_update \<Rightarrow> task \<Rightarrow> py_exn + task" where
  "apply_update u t =
     (if tu_title u = Some None \<or> tu_completed u = Some None then Inl IntegrityError
      else Inr (t\<lparr> title := (case tu_title u of Some (Some v) \<Rightarrow> v | _ \<Rightarrow> title t),
                   description := (case tu_description u of Some d \<Rightarrow> d | None \<Rightarrow> description t),
                   completed := (case tu_completed u of Some (Some b) \<Rightarrow> b | _ \<Rightarrow> completed t) \<rparr>))"

definition partial_update_task ::
  "database \<Rightarrow> int \<Rightarrow> task_update \<Rightarrow> int \<Rightarrow> (failure + task) \<times> database" where
  "partial_update_task db tid body uid =
     (let unexpected =
            HTTPException 500 ''An unexpected error occurred while partially updating the task'' []
      in case scalar_one_or_none (filter (\<lambda>t. task_id t = tid \<and> user_id t = uid) (tasks db)) of
           Inl e \<Rightarrow> (Inl unexpected, db)
         | Inr None \<Rightarrow> (Inl (HTTPException 404 ''Task not found'' []), db)
         | Inr (Some row) \<Rightarrow>
             (case apply_update body row of
                Inl e \<Rightarrow> (Inl unexpected, db)
              | Inr row' \<Rightarrow>
                  (case TaskRead_model_validate row' of
                     Inl e \<Rightarrow> Inl unexpected
                   | Inr r \<Rightarrow> Inr r,
                   db\<lparr>tasks := map (\<lambda>t. if task_id t = tid \<and> user_id t = uid then row' else t)
                                   (tasks db)\<rparr>)))"

definition PATCH_task ::
  "hmac_fun \<Rightarrow> settings \<Rightarrow> datetime \<Rightarrow> database \<Rightarrow> token \<Rightarrow> int \<Rightarrow> int \<Rightarrow> task_update
     \<Rightarrow> (failure + task) \<times> database" where
  "PATCH_task hmac cfg now db tok path_user_id tid body =
     (case path_user_dependency hmac cfg now tok path_user_id of
        Inl f \<Rightarrow> (Inl f, db)
      | Inr uid \<Rightarrow> partial_update_task db tid body uid)"

section \<open>routes/auth.py\<close>

definition register_user ::
  "kdf_fun \<Rightarrow> database \<Rightarrow> string \<Rightarrow> datetime \<Rightarrow> user_create
     \<Rightarrow> (failure + user_read) \<times> database" where
  "register_user kdf db salt now body =
     (case scalar_one_or_none (filter (\<lambda>u. email u = uc_email body) (users db)) of
        Inl e \<Rightarrow>
          (Inl (HTTPException 500 ''An unexpected error occurred during registration'' []), db)
      | Inr (Some existing_user) \<Rightarrow>
          (Inl (HTTPException 409 ''User with this email already exists'' []), db)
      | Inr None \<Rightarrow>
          (case get_password_hash kdf salt (uc_password body) of
             Inl e \<Rightarrow> (Inl (HTTPException 400 ''Invalid password format'' []), db)
           | Inr hashed \<Rightarrow>
               (let db_user = \<lparr> user_pk = next_id (map user_pk (users db)),
                                email = uc_email body, user_created_at = now,
                                hashed_password = hashed, is_active = True \<rparr>
                in (Inr \<lparr> ur_id = user_pk db_user, ur_email = email db_user,
                          ur_created_at = user_created_at db_user,
                          ur_is_active = is_active db_user \<rparr>,
                    db\<lparr>users := users db @ [db_user]\<rparr>))))"

definition unauthorized :: "string \<Rightarrow> failure" where
  "unauthorized msg = HTTPException 401 msg [(''WWW-Authenticate'', ''Bearer'')]"

definition login_user ::
  "hmac_fun \<Rightarrow> encode_fun \<Rightarrow> kdf_fun \<Rightarrow> settings \<Rightarrow> datetime \<Rightarrow> database \<Rightarrow> string
     \<Rightarrow> string \<Rightarrow> failure + token_response" where
  "login_user hmac enc kdf cfg now db username password =
     (let unexpected = HTTPException 500 ''An unexpected error occurred during login'' []
      in case scalar_one_or_none (filter (\<lambda>u. email u = username) (users db)) of
           Inl e \<Rightarrow> Inl unexpected
         | Inr None \<Rightarrow> Inl (unauthorized ''Incorrect email or password'')
         | Inr (Some u) \<Rightarrow>
             (case verify_password kdf password (hashed_password u) of
                Inl e \<Rightarrow> Inl (unauthorized ''Authentication error'')
              | Inr password_valid \<Rightarrow>
                  if \<not> password_valid then Inl (unauthorized ''Incorrect email or password'')
                  else if \<not> is_active u then Inl (unauthorized ''Inactive user'')
                  else
                    (case py_str (user_pk u) of
                       Inl e \<Rightarrow> Inl unexpected
                     | Inr sub \<Rightarrow>
                         (case create_access_token hmac enc cfg now
                                 [(''sub'', JStr sub)] None of
                            Inl e \<Rightarrow> Inl unexpected
                          | Inr t \<Rightarrow> Inr \<lparr>access_token = t, token_type = ''bearer''\<rparr>))))"

section \<open>Integers and their decimal strings\<close>















section \<open>Configuration\<close>

lemma Settings_empty: "Settings Map.empty = Inr default_settings"
  by (simp add: Settings_def getenv_def default_settings_def py_int_str_def py_strip_def
      py_isspace_def parse_unsigned_def is_digit_def digit_val_def MAX_STR_DIGITS_def)

text \<open>
  C9, as stated: when the signing secret is missing from the environment, constructing
  the configuration fails. It does not: with an empty environment the construction
  succeeds and the secret is the built-in one.
\<close>

theorem C9_missing_secret_counterexample:
  "Map.empty ''SECRET_KEY'' = (None :: string option)
   \<and> Map.empty ''AUTH_SECRET'' = (None :: string option)
   \<and> Settings Map.empty = Inr default_settings
   \<and> SECRET_KEY default_settings = builtin_secret"
  by (simp add: Settings_empty) (simp add: default_settings_def)

text \<open>
  C9, amended: the secret never makes the construction fail. Whenever the configured
  token lifetime is absent or reads as an integer, \<open>Settings\<close> succeeds, and its secret is
  \<open>SECRET_KEY\<close> of the environment when set (whatever its value), else \<open>AUTH_SECRET\<close> when
  set, else the built-in secret.
\<close>

theorem C9_secret_fallback:
  assumes "py_int_str (getenv env ''ACCESS_TOKEN_EXPIRE_MINUTES'' ''30'') = Inr m"
  shows "\<exists>cfg. Settings env = Inr cfg
           \<and> SECRET_KEY cfg =
               (case env ''SECRET_KEY'' of
                  Some k \<Rightarrow> k
                | None \<Rightarrow> (case env ''AUTH_SECRET'' of Some k \<Rightarrow> k | None \<Rightarrow> builtin_secret))"
  using assms by (simp add: Settings_def getenv_def)

theorem C9_secret_fallback_witness:
  "py_int_str (getenv Map.empty ''ACCESS_TOKEN_EXPIRE_MINUTES'' ''30'') = Inr 30
   \<and> (\<exists>cfg. Settings Map.empty = Inr cfg \<and> SECRET_KEY cfg = builtin_secret)"
proof -
  have h: "py_int_str (getenv Map.empty ''ACCESS_TOKEN_EXPIRE_MINUTES'' ''30'') = Inr 30"
    by (simp add: getenv_def py_int_str_def py_strip_def py_isspace_def parse_unsigned_def
        is_digit_def digit_val_def MAX_STR_DIGITS_def)
  show ?thesis using h C9_secret_fallback [OF h] by simp
qed

section \<open>Tokens\<close>

lemmas claims_eval = validate_claims_def and_then_def validate_iat_def validate_nbf_def
  validate_exp_def validate_aud_def validate_sub_def validate_jti_def validate_at_hash_def
  claim_int_def dict_get_def

lemmas int_eval = py_int_def py_int_str_def py_strip_def py_isspace_def parse_unsigned_def
  is_digit_def digit_val_def MAX_STR_DIGITS_def

lemmas token_eval = verify_token_def verify_token_body_def jwt_decode_def jwt_encode_def
  claims_eval int_eval timegm_utc_def default_settings_def is_JWTError_def

lemma py_int_str_error: "py_int_str s = Inl e \<Longrightarrow> e = ValueError"
  by (auto simp: py_int_str_def Let_def split: option.splits if_splits)

lemma py_int_error:
  "py_int v = Inl e \<Longrightarrow> e = ValueError \<or> e = TypeError \<or> e = OverflowError"
  by (auto simp: py_int_def dest: py_int_str_error split: json.splits pyfloat.splits)

lemma claim_int_error:
  "claim_int v = Inl e \<Longrightarrow> e = JWTClaimsError \<or> e = TypeError \<or> e = OverflowError"
  by (auto simp: claim_int_def dest: py_int_error split: sum.splits if_splits)

lemma and_then_Inr: "and_then r rest = Inr x \<longleftrightarrow> r = Inr () \<and> rest = Inr x"
  by (cases r) (simp_all add: and_then_def)

lemma and_then_Inl: "and_then r rest = Inl e \<longleftrightarrow> r = Inl e \<or> (r = Inr () \<and> rest = Inl e)"
  by (cases r) (simp_all add: and_then_def)

lemma validate_iat_error:
  "validate_iat c = Inl e \<Longrightarrow> e = JWTClaimsError \<or> e = TypeError \<or> e = OverflowError"
  by (auto simp: validate_iat_def dest: claim_int_error split: option.splits sum.splits)

lemma validate_nbf_error:
  "validate_nbf c now = Inl e \<Longrightarrow> e = JWTClaimsError \<or> e = TypeError \<or> e = OverflowError"
  by (auto simp: validate_nbf_def dest: claim_int_error split: option.splits sum.splits if_splits)

lemma validate_exp_error:
  "validate_exp c now = Inl e \<Longrightarrow>
     e = JWTClaimsError \<or> e = ExpiredSignatureError \<or> e = TypeError \<or> e = OverflowError"
  by (auto simp: validate_exp_def dest: claim_int_error split: option.splits sum.splits if_splits)

lemma validate_rest_error:
  "validate_aud c = Inl e \<Longrightarrow> e = JWTClaimsError"
  "validate_sub c = Inl e \<Longrightarrow> e = JWTClaimsError"
  "validate_jti c = Inl e \<Longrightarrow> e = JWTClaimsError"
  "validate_at_hash c = Inl e \<Longrightarrow> e = JWTClaimsError"
  by (auto simp: validate_aud_def validate_sub_def validate_jti_def validate_at_hash_def
      split: option.splits json.splits)

lemma validate_claims_error:
  assumes "validate_claims c now = Inl e"
  shows "is_JWTError e \<or> e = TypeError \<or> e = OverflowError"
proof -
  from assms consider
      "validate_iat c = Inl e" | "validate_nbf c now = Inl e" | "validate_exp c now = Inl e"
    | "validate_aud c = Inl e" | "validate_sub c = Inl e" | "validate_jti c = Inl e"
    | "validate_at_hash c = Inl e"
    unfolding validate_claims_def and_then_Inl by auto
  then show ?thesis
    by cases
      (auto simp: is_JWTError_def
        dest: validate_iat_error validate_nbf_error validate_exp_error validate_rest_error)
qed

lemma validate_claims_Inr:
  "validate_claims c now = Inr c' \<longleftrightarrow>
     c' = c \<and> validate_iat c = Inr () \<and> validate_nbf c now = Inr ()
     \<and> validate_exp c now = Inr () \<and> validate_aud c = Inr () \<and> validate_sub c = Inr ()
     \<and> validate_jti c = Inr () \<and> validate_at_hash c = Inr ()"
  unfolding validate_claims_def and_then_Inr by auto

lemma validate_sub_Inr:
  "validate_sub c = Inr () \<longleftrightarrow> dict_get c ''sub'' = None \<or> (\<exists>s. dict_get c ''sub'' = Some (JStr s))"
  by (auto simp: validate_sub_def split: option.splits json.splits)

text \<open>What \<open>verify_token\<close> does with a token that has the three parts of a JWS.\<close>

lemma verify_token_Jws:
  "verify_token hmac cfg now (Jws si alg c sg) =
     (if alg = ALGORITHM cfg \<and> sg = hmac alg (SECRET_KEY cfg) si then
        (case validate_claims c now of
           Inl e \<Rightarrow> if e = OverflowError then Inl OverflowError else Inr None
         | Inr c' \<Rightarrow>
             (case dict_get c ''sub'' of
                Some (JStr s) \<Rightarrow> (case py_int_str s of Inr n \<Rightarrow> Inr (Some n) | Inl e \<Rightarrow> Inr None)
              | _ \<Rightarrow> Inr None))
      else Inr None)"
proof (cases "alg = ALGORITHM cfg \<and> sg = hmac alg (SECRET_KEY cfg) si")
  case False
  then show ?thesis
    by (auto simp: verify_token_def verify_token_body_def jwt_decode_def is_JWTError_def)
next
  case True
  then have d: "jwt_decode hmac (Jws si alg c sg) (SECRET_KEY cfg) [ALGORITHM cfg] now
                  = validate_claims c now"
    by (simp add: jwt_decode_def)
  show ?thesis
  proof (cases "validate_claims c now")
    case (Inl e)
    then have "is_JWTError e \<or> e = TypeError \<or> e = OverflowError"
      by (rule validate_claims_error)
    moreover have "\<not> is_JWTError OverflowError" by (simp add: is_JWTError_def)
    ultimately show ?thesis using True Inl d
      by (auto simp: verify_token_def verify_token_body_def)
  next
    case (Inr c')
    then have c': "c' = c" and s: "validate_sub c = Inr ()"
      by (simp_all add: validate_claims_Inr)
    from s consider "dict_get c ''sub'' = None" | s where "dict_get c ''sub'' = Some (JStr s)"
      unfolding validate_sub_Inr by auto
    then show ?thesis
    proof cases
      case 1
      then show ?thesis using True Inr d c'
        by (simp add: verify_token_def verify_token_body_def)
    next
      case 2
      then show ?thesis using True Inr d c'
        by (auto simp: verify_token_def verify_token_body_def py_int_def is_JWTError_def
            dest: py_int_str_error split: sum.splits)
    qed
  qed
qed

lemma verify_token_Undecodable: "verify_token hmac cfg now (Undecodable s) = Inr None"
  by (simp add: verify_token_def verify_token_body_def jwt_decode_def is_JWTError_def)

lemma verify_token_TooDeep: "verify_token hmac cfg now (TooDeep s) = Inl RecursionError"
  by (simp add: verify_token_def verify_token_body_def jwt_decode_def is_JWTError_def)

lemma verify_token_raises_only:
  "verify_token hmac cfg now tok = Inl e \<Longrightarrow> e = RecursionError \<or> e = OverflowError"
  by (cases tok)
    (auto simp: verify_token_Jws verify_token_Undecodable verify_token_TooDeep
      split: if_splits sum.splits option.splits json.splits)


lemma validate_claims_same: "validate_claims c now = Inr c' \<Longrightarrow> c' = c"
  by (simp add: validate_claims_Inr)



text \<open>
  A lifetime of zero is read as no lifetime: \<open>if expires_delta:\<close> is false for it, and the
  token gets the configured lifetime.
\<close>

lemma create_access_token_zero_ttl:
  "create_access_token hmac enc cfg t0 data (Some 0) =
     create_access_token hmac enc cfg t0 data None"
  by (simp add: create_access_token_def)












text \<open>
  C4: for every input string \<open>verify_token\<close> returns the invalid result rather than
  raising, when the token is malformed, expired, wrongly signed or without a usable
  subject. The handlers of \<open>verify_token\<close> catch \<open>JWTError\<close>, \<open>ValueError\<close> and \<open>TypeError\<close>
  only, and two malformed tokens make the library raise something else, which leaves
  \<open>verify_token\<close>: a token whose header nests JSON deeper than the recursion limit
  (\<open>RecursionError\<close>, whoever sent it: the header is read before the signature is
  checked), and a token with a signature that verifies whose \<open>exp\<close> claim is the float
  infinity (\<open>OverflowError\<close> from \<open>int\<close>). \<open>get_user_id_from_token\<close> then has no \<open>None\<close>
  to answer with 401.
\<close>

theorem C4_verify_token_raises:
  "verify_token hmac cfg now (TooDeep s) = Inl RecursionError
   \<and> get_user_id_from_token hmac cfg now (TooDeep s) = Inl (Uncaught RecursionError)
   \<and> verify_token hmac cfg now
        (Jws si (ALGORITHM cfg) [(''sub'', JStr ''7''), (''exp'', JFloat PosInf)]
           (hmac (ALGORITHM cfg) (SECRET_KEY cfg) si))
       = Inl OverflowError"
  by (simp add: get_user_id_from_token_def verify_token_TooDeep verify_token_Jws claims_eval
      py_int_def)

section \<open>Identity enforcement\<close>

text \<open>
  C1: \<open>validate_user_id_match\<close> signals 403 when the path's user id and the token's differ
  and returns the path's user id when they are equal; so a request with a valid token of
  user \<open>a\<close> on the task list of another user \<open>b\<close> ends with 403 and returns no task.
\<close>

theorem C1_identity_enforcement:
  "(path_user_id \<noteq> token_user_id \<longrightarrow>
      validate_user_id_match path_user_id token_user_id =
        Inl (HTTPException 403 ''User ID does not match authenticated user'' []))
   \<and> (path_user_id = token_user_id \<longrightarrow>
        validate_user_id_match path_user_id token_user_id = Inr path_user_id)
   \<and> (verify_token hmac cfg now tok = Inr (Some a) \<and> a \<noteq> b \<longrightarrow>
        GET_tasks hmac cfg now db tok b =
          Inl (HTTPException 403 ''User ID does not match authenticated user'' []))"
  by (simp add: validate_user_id_match_def GET_tasks_def path_user_dependency_def
      get_user_id_from_token_def)

theorem C1_identity_enforcement_witness:
  "validate_user_id_match 2 1 = Inl (HTTPException 403 ''User ID does not match authenticated user'' [])
   \<and> validate_user_id_match 1 1 = Inr 1
   \<and> verify_token example_hmac default_settings 1700000000000000
         (jwt_encode example_hmac example_enc [(''sub'', JStr ''1''), (''exp'', JInt 1700001800)]
            builtin_secret ''HS256'') = Inr (Some 1)
   \<and> GET_tasks example_hmac default_settings 1700000000000000
         \<lparr>users = [],
          tasks = [\<lparr>title = ''private'', description = None, completed = False, user_id = 2,
                    task_id = 1, created_at = 1690000000000000,
                    updated_at = 1690000000000000\<rparr>]\<rparr>
         (jwt_encode example_hmac example_enc [(''sub'', JStr ''1''), (''exp'', JInt 1700001800)]
            builtin_secret ''HS256'') 2
       = Inl (HTTPException 403 ''User ID does not match authenticated user'' [])"
proof -
  let ?tok = "jwt_encode example_hmac example_enc
                [(''sub'', JStr ''1''), (''exp'', JInt 1700001800)] builtin_secret ''HS256''"
  have v: "verify_token example_hmac default_settings 1700000000000000 ?tok = Inr (Some 1)"
    by (simp add: token_eval Let_def)
  show ?thesis
    using v
      C1_identity_enforcement [where path_user_id = 2 and token_user_id = 1
        and hmac = example_hmac and cfg = default_settings and now = 1700000000000000
        and tok = ?tok and a = 1 and b = 2]
      C1_identity_enforcement [where path_user_id = 1 and token_user_id = 1]
    by simp
qed

section \<open>Passwords\<close>

text \<open>
  C5, as stated: \<open>verify_password\<close> returns true exactly for a digest made from the
  plaintext, and returns false, never raising, on a mismatch or on a malformed digest. On
  a malformed digest it raises: \<open>verify_password\<close> has no handler of its own, and the
  library's exception reaches the caller. This holds whatever the key derivation is.
\<close>

theorem C5_malformed_digest_counterexample:
  "\<forall>kdf. verify_password kdf ''secret123'' (NotPbkdf2 ''not-a-digest'') = Inl ValueError"
  by (simp add: verify_password_def pwd_context_verify_def)

text \<open>
  C5, amended: \<open>verify_password\<close> returns true on every digest that \<open>get_password_hash\<close>
  has made from the plaintext. For a plaintext of at most 4096 characters it returns true
  exactly on a well-formed pbkdf2-sha256 digest whose checksum is the one derived from
  the plaintext under the digest's own settings, and false exactly on a well-formed digest
  with any other checksum. On a longer plaintext, and on a digest that is not a well-formed
  pbkdf2-sha256 digest, it raises \<open>ValueError\<close> to its caller; \<open>login_user\<close> catches
  whatever \<open>verify_password\<close> raises and answers 401 with the detail "Authentication
  error". Nothing is assumed about the key derivation, so the digest of another plaintext
  is refused only as far as its checksum differs from the one of the plaintext at hand.
\<close>

theorem C5_verify_password:
  "(get_password_hash kdf salt plain = Inr digest \<longrightarrow>
      verify_password kdf plain digest = Inr True)
   \<and> (length plain \<le> MAX_PASSWORD_SIZE \<longrightarrow>
        (verify_password kdf plain digest = Inr True \<longleftrightarrow>
           (\<exists>st. digest = Pbkdf2 st (kdf st plain)))
        \<and> (verify_password kdf plain digest = Inr False \<longleftrightarrow>
             (\<exists>st chk. digest = Pbkdf2 st chk \<and> chk \<noteq> kdf st plain)))
   \<and> (MAX_PASSWORD_SIZE < length plain \<or> digest = NotPbkdf2 s \<longrightarrow>
        verify_password kdf plain digest = Inl ValueError)
   \<and> (filter (\<lambda>u. email u = username) (users db) = [u]
        \<and> verify_password kdf plain (hashed_password u) = Inl e \<longrightarrow>
        login_user hmac enc kdf cfg now db username plain
          = Inl (unauthorized ''Authentication error''))"
proof (intro conjI impI)
  assume "get_password_hash kdf salt plain = Inr digest"
  then show "verify_password kdf plain digest = Inr True"
    by (auto simp: verify_password_def pwd_context_verify_def get_password_hash_def
        pwd_context_hash_def split: if_splits)
next
  assume "length plain \<le> MAX_PASSWORD_SIZE"
  then show "verify_password kdf plain digest = Inr True \<longleftrightarrow>
           (\<exists>st. digest = Pbkdf2 st (kdf st plain))"
    by (cases digest) (auto simp: verify_password_def pwd_context_verify_def)
next
  assume "length plain \<le> MAX_PASSWORD_SIZE"
  then show "verify_password kdf plain digest = Inr False \<longleftrightarrow>
             (\<exists>st chk. digest = Pbkdf2 st chk \<and> chk \<noteq> kdf st plain)"
    by (cases digest) (auto simp: verify_password_def pwd_context_verify_def)
next
  assume "MAX_PASSWORD_SIZE < length plain \<or> digest = NotPbkdf2 s"
  then show "verify_password kdf plain digest = Inl ValueError"
    by (cases digest) (auto simp: verify_password_def pwd_context_verify_def)
next
  assume "filter (\<lambda>u. email u = username) (users db) = [u]
        \<and> verify_password kdf plain (hashed_password u) = Inl e"
  then show "login_user hmac enc kdf cfg now db username plain
               = Inl (unauthorized ''Authentication error'')"
    by (simp add: login_user_def)
qed

theorem C5_verify_password_witness:
  "get_password_hash example_kdf ''salt'' ''secret123''
       = Inr (Pbkdf2 ''salt'' (example_kdf ''salt'' ''secret123''))
   \<and> length ''secret123'' \<le> MAX_PASSWORD_SIZE
   \<and> verify_password example_kdf ''secret123''
        (Pbkdf2 ''salt'' (example_kdf ''salt'' ''secret123'')) = Inr True
   \<and> ''0000'' \<noteq> example_kdf ''salt'' ''secret123''
   \<and> verify_password example_kdf ''secret123'' (Pbkdf2 ''salt'' ''0000'') = Inr False
   \<and> verify_password example_kdf ''secret123'' (NotPbkdf2 ''plaintext-left-in-column'')
       = Inl ValueError
   \<and> MAX_PASSWORD_SIZE < length (replicate 4097 CHR ''a'')
   \<and> verify_password example_kdf (replicate 4097 CHR ''a'')
        (Pbkdf2 ''salt'' (example_kdf ''salt'' ''secret123'')) = Inl ValueError
   \<and> login_user example_hmac example_enc example_kdf default_settings 1700000000000000
        \<lparr>users = [\<lparr>user_pk = 1, email = ''alice@example.com'',
                    user_created_at = 1690000000000000,
                    hashed_password = NotPbkdf2 ''plaintext-left-in-column'',
                    is_active = True\<rparr>], tasks = []\<rparr>
        ''alice@example.com'' ''secret123''
      = Inl (HTTPException 401 ''Authentication error'' [(''WWW-Authenticate'', ''Bearer'')])"
proof -
  let ?alice = "\<lparr>user_pk = 1, email = ''alice@example.com'',
                    user_created_at = 1690000000000000,
                    hashed_password = NotPbkdf2 ''plaintext-left-in-column'',
                    is_active = True\<rparr>"
  let ?db = "\<lparr>users = [?alice], tasks = []\<rparr>"
  let ?good = "Pbkdf2 ''salt'' (example_kdf ''salt'' ''secret123'')"
  have len: "length ''secret123'' \<le> MAX_PASSWORD_SIZE" by (simp add: MAX_PASSWORD_SIZE_def)
  have long: "MAX_PASSWORD_SIZE < length (replicate 4097 CHR ''a'')"
    by (simp add: MAX_PASSWORD_SIZE_def)
  have h1: "get_password_hash example_kdf ''salt'' ''secret123'' = Inr ?good"
    by (simp add: get_password_hash_def pwd_context_hash_def MAX_PASSWORD_SIZE_def)
  have ne: "''0000'' \<noteq> example_kdf ''salt'' ''secret123''" by (simp add: example_kdf_def)
  have 1: "verify_password example_kdf ''secret123'' ?good = Inr True"
    using C5_verify_password [where kdf = example_kdf and plain = "''secret123''"
        and salt = "''salt''" and digest = ?good] h1
    by blast
  have 2: "verify_password example_kdf ''secret123'' (Pbkdf2 ''salt'' ''0000'') = Inr False"
    using C5_verify_password [where kdf = example_kdf and plain = "''secret123''"
        and digest = "Pbkdf2 ''salt'' ''0000''"] len ne
    by simp
  have 3: "verify_password example_kdf (replicate 4097 CHR ''a'') ?good = Inl ValueError"
    using C5_verify_password [where kdf = example_kdf and plain = "replicate 4097 CHR ''a''"
        and digest = ?good] long
    by blast
  have 4: "verify_password example_kdf ''secret123'' (NotPbkdf2 ''plaintext-left-in-column'')
             = Inl ValueError"
    using C5_verify_password [where kdf = example_kdf and plain = "''secret123''"
        and s = "''plaintext-left-in-column''"
        and digest = "NotPbkdf2 ''plaintext-left-in-column''"]
    by simp
  have one: "filter (\<lambda>u. email u = ''alice@example.com'') (users ?db) = [?alice]" by simp
  have 5: "login_user example_hmac example_enc example_kdf default_settings 1700000000000000 ?db
             ''alice@example.com'' ''secret123''
      = Inl (unauthorized ''Authentication error'')"
    using C5_verify_password [where kdf = example_kdf and hmac = example_hmac
        and enc = example_enc
        and plain = "''secret123''" and db = ?db and u = ?alice
        and username = "''alice@example.com''" and e = ValueError
        and cfg = default_settings and now = 1700000000000000] one 4
    by simp
  show ?thesis using len long h1 ne 1 2 3 4 5 by (simp add: unauthorized_def)
qed

section \<open>Login and registration\<close>

lemma scalar_one_or_none_cases:
  "scalar_one_or_none xs = Inr None \<longleftrightarrow> xs = []"
  "scalar_one_or_none xs = Inr (Some x) \<longleftrightarrow> xs = [x]"
  by (cases xs rule: scalar_one_or_none.cases; auto)+

text \<open>
  C7: a login for which no user row has the submitted email, and a login for which the
  user exists but \<open>verify_password\<close> returns false, end with the same failure: status 401,
  detail "Incorrect email or password", header \<open>WWW-Authenticate: Bearer\<close>.
\<close>

theorem C7_login_same_failure:
  "(filter (\<lambda>u. email u = username) (users db) = [] \<longrightarrow>
      login_user hmac enc kdf cfg now db username password
        = Inl (unauthorized ''Incorrect email or password''))
   \<and> (filter (\<lambda>u. email u = username') (users db') = [u]
        \<and> verify_password kdf password' (hashed_password u) = Inr False \<longrightarrow>
      login_user hmac enc kdf cfg' now' db' username' password' =
        Inl (unauthorized ''Incorrect email or password''))
   \<and> unauthorized ''Incorrect email or password'' =
        HTTPException 401 ''Incorrect email or password'' [(''WWW-Authenticate'', ''Bearer'')]"
  by (simp add: login_user_def unauthorized_def)

theorem C7_login_same_failure_witness:
  "filter (\<lambda>u. email u = ''bob@example.com'')
     (users \<lparr>users = [\<lparr>user_pk = 1, email = ''alice@example.com'',
                         user_created_at = 1700000000000000,
                         hashed_password = Pbkdf2 ''salt'' (example_kdf ''salt'' ''secret123''),
                         is_active = True\<rparr>], tasks = []\<rparr>) = []
   \<and> verify_password example_kdf ''wrong''
        (hashed_password \<lparr>user_pk = 1, email = ''alice@example.com'',
                         user_created_at = 1700000000000000,
                         hashed_password = Pbkdf2 ''salt'' (example_kdf ''salt'' ''secret123''),
                         is_active = True\<rparr>) = Inr False
   \<and> login_user example_hmac example_enc example_kdf default_settings 1700000100000000
        \<lparr>users = [\<lparr>user_pk = 1, email = ''alice@example.com'',
                         user_created_at = 1700000000000000,
                         hashed_password = Pbkdf2 ''salt'' (example_kdf ''salt'' ''secret123''),
                         is_active = True\<rparr>], tasks = []\<rparr> ''bob@example.com'' ''secret123''
     = login_user example_hmac example_enc example_kdf default_settings 1700000100000000
        \<lparr>users = [\<lparr>user_pk = 1, email = ''alice@example.com'',
                         user_created_at = 1700000000000000,
                         hashed_password = Pbkdf2 ''salt'' (example_kdf ''salt'' ''secret123''),
                         is_active = True\<rparr>], tasks = []\<rparr> ''alice@example.com'' ''wrong''
   \<and> login_user example_hmac example_enc example_kdf default_settings 1700000100000000
        \<lparr>users = [\<lparr>user_pk = 1, email = ''alice@example.com'',
                         user_created_at = 1700000000000000,
                         hashed_password = Pbkdf2 ''salt'' (example_kdf ''salt'' ''secret123''),
                         is_active = True\<rparr>], tasks = []\<rparr> ''alice@example.com'' ''wrong''
     = Inl (HTTPException 401 ''Incorrect email or password'' [(''WWW-Authenticate'', ''Bearer'')])"
proof -
  let ?alice = "\<lparr>user_pk = 1, email = ''alice@example.com'',
                 user_created_at = 1700000000000000,
                 hashed_password = Pbkdf2 ''salt'' (example_kdf ''salt'' ''secret123''),
                 is_active = True\<rparr>"
  let ?db = "\<lparr>users = [?alice], tasks = []\<rparr>"
  have none: "filter (\<lambda>u. email u = ''bob@example.com'') (users ?db) = []" by simp
  have one: "filter (\<lambda>u. email u = ''alice@example.com'') (users ?db) = [?alice]" by simp
  have bad: "verify_password example_kdf ''wrong'' (hashed_password ?alice) = Inr False"
    by (simp add: verify_password_def pwd_context_verify_def MAX_PASSWORD_SIZE_def
        example_kdf_def)
  note inst = C7_login_same_failure [where hmac = example_hmac and enc = example_enc
      and kdf = example_kdf
      and cfg = default_settings and now = 1700000100000000
      and db = ?db and username = "''bob@example.com''" and password = "''secret123''"
      and cfg' = default_settings and now' = 1700000100000000 and db' = ?db
      and username' = "''alice@example.com''" and password' = "''wrong''" and u = ?alice]
  show ?thesis using inst none one bad by simp
qed

text \<open>
  C8: when no user has the email and hashing succeeds, \<open>register_user\<close> succeeds and
  adds exactly one user row, with that email and the digest; every later registration
  with the same email then ends with 409 and leaves the database as it is. When no user
  has the email and hashing raises, the result is 400 and no row is added; when a user
  with the email exists, the result is 409 and no row is added.
\<close>

theorem C8_register:
  "(filter (\<lambda>u. email u = uc_email body) (users db) = []
      \<and> get_password_hash kdf salt (uc_password body) = Inr h \<longrightarrow>
      (\<exists>r row db'.
          register_user kdf db salt now body = (Inr r, db')
          \<and> users db' = users db @ [row] \<and> tasks db' = tasks db
          \<and> email row = uc_email body \<and> hashed_password row = h
          \<and> ur_email r = uc_email body \<and> ur_id r = user_pk row
          \<and> (\<forall>salt' now' body'. uc_email body' = uc_email body \<longrightarrow>
                 register_user kdf db' salt' now' body' =
                   (Inl (HTTPException 409 ''User with this email already exists'' []), db'))))
   \<and> (filter (\<lambda>u. email u = uc_email body) (users db) = []
        \<and> get_password_hash kdf salt (uc_password body) = Inl e \<longrightarrow>
        register_user kdf db salt now body
          = (Inl (HTTPException 400 ''Invalid password format'' []), db))
   \<and> (filter (\<lambda>u. email u = uc_email body) (users db) = [x] \<longrightarrow>
        register_user kdf db salt now body =
          (Inl (HTTPException 409 ''User with this email already exists'' []), db))"
proof (intro conjI impI)
  assume a: "filter (\<lambda>u. email u = uc_email body) (users db) = []
      \<and> get_password_hash kdf salt (uc_password body) = Inr h"
  let ?row = "\<lparr> user_pk = next_id (map user_pk (users db)), email = uc_email body,
                 user_created_at = now, hashed_password = h, is_active = True \<rparr>"
  let ?db' = "db\<lparr>users := users db @ [?row]\<rparr>"
  let ?r = "\<lparr> ur_id = user_pk ?row, ur_email = email ?row,
               ur_created_at = user_created_at ?row, ur_is_active = is_active ?row \<rparr>"
  have first: "register_user kdf db salt now body = (Inr ?r, ?db')"
    using a by (simp add: register_user_def)
  have again: "register_user kdf ?db' salt' now' body' =
         (Inl (HTTPException 409 ''User with this email already exists'' []), ?db')"
    if "uc_email body' = uc_email body" for salt' now' body'
    using a that by (simp add: register_user_def)
  show "\<exists>r row db'.
          register_user kdf db salt now body = (Inr r, db')
          \<and> users db' = users db @ [row] \<and> tasks db' = tasks db
          \<and> email row = uc_email body \<and> hashed_password row = h
          \<and> ur_email r = uc_email body \<and> ur_id r = user_pk row
          \<and> (\<forall>salt' now' body'. uc_email body' = uc_email body \<longrightarrow>
                 register_user kdf db' salt' now' body' =
                   (Inl (HTTPException 409 ''User with this email already exists'' []), db'))"
    apply (rule exI [of _ ?r], rule exI [of _ ?row], rule exI [of _ ?db'])
    using first again by simp
next
  assume "filter (\<lambda>u. email u = uc_email body) (users db) = []
        \<and> get_password_hash kdf salt (uc_password body) = Inl e"
  then show "register_user kdf db salt now body =
      (Inl (HTTPException 400 ''Invalid password format'' []), db)"
    by (simp add: register_user_def)
next
  assume "filter (\<lambda>u. email u = uc_email body) (users db) = [x]"
  then show "register_user kdf db salt now body =
          (Inl (HTTPException 409 ''User with this email already exists'' []), db)"
    by (simp add: register_user_def)
qed

theorem C8_register_witness:
  "get_password_hash example_kdf ''salt'' ''secret123''
     = Inr (Pbkdf2 ''salt'' (example_kdf ''salt'' ''secret123''))
   \<and> register_user example_kdf \<lparr>users = [], tasks = []\<rparr> ''salt'' 1700000000000000
        \<lparr>uc_email = ''alice@example.com'', uc_password = ''secret123''\<rparr>
      = (Inr \<lparr>ur_id = 1, ur_email = ''alice@example.com'', ur_created_at = 1700000000000000,
               ur_is_active = True\<rparr>,
         \<lparr>users = [\<lparr>user_pk = 1, email = ''alice@example.com'',
                      user_created_at = 1700000000000000,
                      hashed_password = Pbkdf2 ''salt'' (example_kdf ''salt'' ''secret123''),
                      is_active = True\<rparr>], tasks = []\<rparr>)
   \<and> register_user example_kdf
        \<lparr>users = [\<lparr>user_pk = 1, email = ''alice@example.com'',
                      user_created_at = 1700000000000000,
                      hashed_password = Pbkdf2 ''salt'' (example_kdf ''salt'' ''secret123''),
                      is_active = True\<rparr>], tasks = []\<rparr> ''pepper'' 1700000001000000
        \<lparr>uc_email = ''alice@example.com'', uc_password = ''other''\<rparr>
      = (Inl (HTTPException 409 ''User with this email already exists'' []),
         \<lparr>users = [\<lparr>user_pk = 1, email = ''alice@example.com'',
                      user_created_at = 1700000000000000,
                      hashed_password = Pbkdf2 ''salt'' (example_kdf ''salt'' ''secret123''),
                      is_active = True\<rparr>], tasks = []\<rparr>)
   \<and> get_password_hash example_kdf ''salt'' (replicate 4097 CHR ''a'') = Inl ValueError
   \<and> register_user example_kdf \<lparr>users = [], tasks = []\<rparr> ''salt'' 1700000000000000
        \<lparr>uc_email = ''alice@example.com'', uc_password = replicate 4097 CHR ''a''\<rparr>
      = (Inl (HTTPException 400 ''Invalid password format'' []), \<lparr>users = [], tasks = []\<rparr>)"
proof -
  let ?alice = "\<lparr>user_pk = 1, email = ''alice@example.com'',
                 user_created_at = 1700000000000000,
                 hashed_password = Pbkdf2 ''salt'' (example_kdf ''salt'' ''secret123''),
                 is_active = True\<rparr>"
  let ?db0 = "\<lparr>users = [], tasks = []\<rparr> :: database"
  let ?db1 = "\<lparr>users = [?alice], tasks = []\<rparr>"
  have h: "get_password_hash example_kdf ''salt'' ''secret123''
             = Inr (Pbkdf2 ''salt'' (example_kdf ''salt'' ''secret123''))"
    by (simp add: get_password_hash_def pwd_context_hash_def MAX_PASSWORD_SIZE_def)
  have long: "get_password_hash example_kdf ''salt'' (replicate 4097 CHR ''a'') = Inl ValueError"
    by (simp add: get_password_hash_def pwd_context_hash_def MAX_PASSWORD_SIZE_def)
  have first: "register_user example_kdf ?db0 ''salt'' 1700000000000000
        \<lparr>uc_email = ''alice@example.com'', uc_password = ''secret123''\<rparr>
      = (Inr \<lparr>ur_id = 1, ur_email = ''alice@example.com'', ur_created_at = 1700000000000000,
               ur_is_active = True\<rparr>, ?db1)"
    using C8_register [where kdf = example_kdf and db = ?db0 and salt = "''salt''"
        and now = 1700000000000000
        and body = "\<lparr>uc_email = ''alice@example.com'', uc_password = ''secret123''\<rparr>"
        and h = "Pbkdf2 ''salt'' (example_kdf ''salt'' ''secret123'')"] h
    by (auto simp: register_user_def next_id_def)
  have second: "register_user example_kdf ?db1 ''pepper'' 1700000001000000
        \<lparr>uc_email = ''alice@example.com'', uc_password = ''other''\<rparr>
      = (Inl (HTTPException 409 ''User with this email already exists'' []), ?db1)"
    using C8_register [where kdf = example_kdf and db = ?db1 and salt = "''pepper''"
        and now = 1700000001000000
        and body = "\<lparr>uc_email = ''alice@example.com'', uc_password = ''other''\<rparr>"
        and x = ?alice]
    by simp
  have third: "register_user example_kdf ?db0 ''salt'' 1700000000000000
        \<lparr>uc_email = ''alice@example.com'', uc_password = replicate 4097 CHR ''a''\<rparr>
      = (Inl (HTTPException 400 ''Invalid password format'' []), ?db0)"
    using C8_register [where kdf = example_kdf and db = ?db0 and salt = "''salt''"
        and now = 1700000000000000
        and body = "\<lparr>uc_email = ''alice@example.com'', uc_password = replicate 4097 CHR ''a''\<rparr>"
        and e = ValueError] long
    by simp
  show ?thesis using h long first second third by simp
qed

section \<open>Tasks\<close>




lemma scalar_one_or_none_Some: "scalar_one_or_none xs = Inr (Some x) \<Longrightarrow> xs = [x]"
  by (cases xs rule: scalar_one_or_none.cases) auto

lemma apply_update_frame:
  assumes "apply_update body row = Inr row'"
  shows "updated_at row' = updated_at row \<and> created_at row' = created_at row
         \<and> user_id row' = user_id row \<and> task_id row' = task_id row
         \<and> (tu_title body = None \<longrightarrow> title row' = title row)
         \<and> (tu_description body = None \<longrightarrow> description row' = description row)"
proof -
  from assms have "row' = row\<lparr> title := (case tu_title body of Some (Some v) \<Rightarrow> v | _ \<Rightarrow> title row),
                   description := (case tu_description body of Some d \<Rightarrow> d | None \<Rightarrow> description row),
                   completed := (case tu_completed body of Some (Some b) \<Rightarrow> b | _ \<Rightarrow> completed row) \<rparr>"
    unfolding apply_update_def by (simp split: if_splits)
  then show ?thesis by simp
qed

lemma partial_update_task_found:
  assumes "partial_update_task db tid body uid = (Inr r, db')"
  shows "\<exists>row row'. filter (\<lambda>t. task_id t = tid \<and> user_id t = uid) (tasks db) = [row]
           \<and> apply_update body row = Inr row' \<and> r = row'"
proof -
  let ?rows = "filter (\<lambda>t. task_id t = tid \<and> user_id t = uid) (tasks db)"
  show ?thesis
  proof (cases "scalar_one_or_none ?rows")
    case (Inl e)
    with assms show ?thesis by (simp add: partial_update_task_def Let_def)
  next
    case (Inr found)
    show ?thesis
    proof (cases found)
      case None
      with Inr assms show ?thesis by (simp add: partial_update_task_def Let_def)
    next
      case (Some row)
      with Inr have one: "?rows = [row]" by (simp add: scalar_one_or_none_Some)
      show ?thesis
      proof (cases "apply_update body row")
        case (Inl e)
        with Inr Some assms show ?thesis by (simp add: partial_update_task_def Let_def)
      next
        case (Inr row')
        have "r = row'"
        proof (cases "TaskRead_model_validate row'")
          case (Inl e)
          with Inr \<open>scalar_one_or_none ?rows = Inr found\<close> Some assms show ?thesis
            by (simp add: partial_update_task_def Let_def)
        next
          case v: (Inr x)
          then have "x = row'" by (simp add: TaskRead_model_validate_def split: if_splits)
          with v Inr \<open>scalar_one_or_none ?rows = Inr found\<close> Some assms show ?thesis
            by (simp add: partial_update_task_def Let_def)
        qed
        with one Inr show ?thesis by simp
      qed
    qed
  qed
qed

lemma partial_update_task_frame:
  assumes "partial_update_task db tid body uid = (Inr r, db')"
  shows "\<exists>row \<in> set (tasks db). task_id row = tid \<and> user_id row = uid
           \<and> updated_at r = updated_at row \<and> created_at r = created_at row
           \<and> (tu_title body = None \<longrightarrow> title r = title row)
           \<and> (tu_description body = None \<longrightarrow> description r = description row)"
proof -
  from partial_update_task_found [OF assms] obtain row where
    one: "filter (\<lambda>t. task_id t = tid \<and> user_id t = uid) (tasks db) = [row]"
    and a: "apply_update body row = Inr r" by blast
  from one have "row \<in> set (filter (\<lambda>t. task_id t = tid \<and> user_id t = uid) (tasks db))"
    by simp
  then have m: "row \<in> set (tasks db)" "task_id row = tid" "user_id row = uid" by simp_all
  have "task_id row = tid \<and> user_id row = uid
           \<and> updated_at r = updated_at row \<and> created_at r = created_at row
           \<and> (tu_title body = None \<longrightarrow> title r = title row)
           \<and> (tu_description body = None \<longrightarrow> description r = description row)"
    using apply_update_frame [OF a] m(2,3) by simp
  then show ?thesis using m(1) by (rule rev_bexI [rotated])
qed

text \<open>
  C6: a PATCH of \<open>{completed: true}\<close> to a task of the requester leaves \<open>title\<close> and
  \<open>description\<close> as they are and sets \<open>updated_at\<close> to a time after \<open>created_at\<close>. The
  first part holds (\<open>partial_update_task_frame\<close>). The second does not:
  \<open>partial_update_task\<close> reads no clock and never writes \<open>updated_at\<close>. A task whose two
  timestamps were equal when it was created still has \<open>updated_at = created_at\<close> after
  the PATCH, as the evaluation below shows.
\<close>

theorem C6_patch_keeps_updated_at:
  "create_task \<lparr>users = [], tasks = []\<rparr> 1700000000000000 1700000000000000
      \<lparr>tc_title = ''buy milk'', tc_description = Some ''two litres'', tc_completed = False\<rparr> 1
     = (Inr \<lparr>title = ''buy milk'', description = Some ''two litres'', completed = False,
              user_id = 1, task_id = 1, created_at = 1700000000000000,
              updated_at = 1700000000000000\<rparr>,
        \<lparr>users = [],
         tasks = [\<lparr>title = ''buy milk'', description = Some ''two litres'', completed = False,
                    user_id = 1, task_id = 1, created_at = 1700000000000000,
                    updated_at = 1700000000000000\<rparr>]\<rparr>)
   \<and> partial_update_task
        \<lparr>users = [],
         tasks = [\<lparr>title = ''buy milk'', description = Some ''two litres'', completed = False,
                    user_id = 1, task_id = 1, created_at = 1700000000000000,
                    updated_at = 1700000000000000\<rparr>]\<rparr>
        1 \<lparr>tu_title = None, tu_description = None, tu_completed = Some (Some True)\<rparr> 1
     = (Inr \<lparr>title = ''buy milk'', description = Some ''two litres'', completed = True,
              user_id = 1, task_id = 1, created_at = 1700000000000000,
              updated_at = 1700000000000000\<rparr>,
        \<lparr>users = [],
         tasks = [\<lparr>title = ''buy milk'', description = Some ''two litres'', completed = True,
                    user_id = 1, task_id = 1, created_at = 1700000000000000,
                    updated_at = 1700000000000000\<rparr>]\<rparr>)"
  by (simp add: create_task_def partial_update_task_def apply_update_def Let_def
      TaskRead_model_validate_def next_id_def)

end
